theory Spec2Isabelle
  imports Complex_Main "HOL-Library.Multiset"
begin

section \<open>Exceptions\<close>

text \<open>
  The Python exceptions the modelled code raises or lets through.  Each constructor
  carries the message, which is what \<^verbatim>\<open>str(e)\<close> returns when the code wraps
  an exception into a new \<^verbatim>\<open>ValueError\<close>.  \<open>LibraryError\<close> stands for a failure
  of an external collaborator (language model, retriever, prompt formatting).
\<close>

datatype exn =
    ValueError string
  | ZeroDivisionError string
  | KeyError string
  | TypeError string
  | EOFError string
  | LibraryError string

fun str_exn :: "exn \<Rightarrow> string" where
  "str_exn (ValueError m) = m"
| "str_exn (ZeroDivisionError m) = m"
| "str_exn (KeyError m) = m"
| "str_exn (TypeError m) = m"
| "str_exn (EOFError m) = m"
| "str_exn (LibraryError m) = m"

fun is_ValueError :: "exn \<Rightarrow> bool" where
  "is_ValueError (ValueError m) = True"
| "is_ValueError e = False"

section \<open>Reciprocal rank fusion (models/fusion\_rrf.py)\<close>

subsection \<open>The dictionary of fused scores\<close>

text \<open>
  A Python \<^verbatim>\<open>dict\<close> keeps its keys in insertion order, and
  \<^verbatim>\<open>sorted\<close> is stable, so the order of the keys decides the order of ties.
  The dictionary is therefore an association list in insertion order: assigning to a
  key that is present replaces the value in place, assigning to a new key appends.
  Scores are Python floats; they are modelled as exact reals (rounding is not modelled).
\<close>

type_synonym 'v dict = "(string \<times> 'v) list"

definition dict_contains :: "'v dict \<Rightarrow> string \<Rightarrow> bool" where
  "dict_contains d key = (map_of d key \<noteq> None)"

definition dict_get :: "'v dict \<Rightarrow> string \<Rightarrow> 'v option" where
  "dict_get d key = map_of d key"

fun dict_set :: "'v dict \<Rightarrow> string \<Rightarrow> 'v \<Rightarrow> 'v dict" where
  "dict_set [] key v = [(key, v)]"
| "dict_set ((key', v') # rest) key v =
     (if key' = key then (key', v) # rest else (key', v') # dict_set rest key v)"

subsection \<open>The two loops\<close>

text \<open>
  \<^verbatim>\<open>for rank, doc in enumerate(docs)\<close>: the body serialises the document, enters
  it with score 0 when it is new, and adds \<^verbatim>\<open>1 / (rank + k)\<close>.  The division
  raises \<^verbatim>\<open>ZeroDivisionError\<close> when \<^verbatim>\<open>rank + k\<close> is 0.
\<close>

fun rrf_docs :: "('d \<Rightarrow> string) \<Rightarrow> int \<Rightarrow> nat \<Rightarrow> 'd list \<Rightarrow> real dict \<Rightarrow> exn + real dict" where
  "rrf_docs dumps k rank [] fused_scores = Inr fused_scores"
| "rrf_docs dumps k rank (doc # docs) fused_scores =
     (let doc_str = dumps doc;
          fused_scores1 = (if \<not> dict_contains fused_scores doc_str
                           then dict_set fused_scores doc_str 0 else fused_scores)
      in if int rank + k = 0 then Inl (ZeroDivisionError ''division by zero'')
         else (case dict_get fused_scores1 doc_str of
                 None \<Rightarrow> Inl (KeyError doc_str)
               | Some score \<Rightarrow>
                   rrf_docs dumps k (Suc rank) docs
                     (dict_set fused_scores1 doc_str (score + 1 / real_of_int (int rank + k)))))"

text \<open>\<^verbatim>\<open>for docs in results\<close>: every list starts again at rank 0.\<close>

fun rrf_results :: "('d \<Rightarrow> string) \<Rightarrow> int \<Rightarrow> 'd list list \<Rightarrow> real dict \<Rightarrow> exn + real dict" where
  "rrf_results dumps k [] fused_scores = Inr fused_scores"
| "rrf_results dumps k (docs # results) fused_scores =
     (case rrf_docs dumps k 0 docs fused_scores of
        Inl e \<Rightarrow> Inl e
      | Inr fused_scores' \<Rightarrow> rrf_results dumps k results fused_scores')"

subsection \<open>Sorting and the result\<close>

text \<open>
  \<^verbatim>\<open>sorted(items, key=f, reverse=True)\<close>: CPython reverses the list, sorts it
  stably in ascending order of the key, and reverses the result, so that elements
  with equal keys keep their original relative order.
\<close>

definition sorted_reverse :: "('a \<Rightarrow> real) \<Rightarrow> 'a list \<Rightarrow> 'a list" where
  "sorted_reverse f xs = rev (sort_key f (rev xs))"

text \<open>
  \<^verbatim>\<open>dumps\<close> and \<^verbatim>\<open>loads\<close> come from the langchain library; they are
  parameters of the model.
\<close>

definition reciprocal_rank_fusion ::
  "('d \<Rightarrow> string) \<Rightarrow> (string \<Rightarrow> 'd) \<Rightarrow> 'd list list \<Rightarrow> int \<Rightarrow> exn + ('d \<times> real) list" where
  "reciprocal_rank_fusion dumps loads results k =
     (if results = [] then Inl (ValueError ''Results list cannot be empty'')
      else (case rrf_results dumps k results [] of
              Inl e \<Rightarrow> Inl (ValueError (''Failed to perform reciprocal rank fusion: '' @ str_exn e))
            | Inr fused_scores \<Rightarrow>
                Inr (map (\<lambda>(doc, score). (loads doc, score)) (sorted_reverse snd fused_scores))))"

subsection \<open>The score formula and the order of first encounter, as the specification words them\<close>






section \<open>Strings\<close>

text \<open>
  Python strings are sequences of code points; the model has the code points below 256.
  \<^verbatim>\<open>str.isspace\<close> holds there for U+0009 to U+000D, U+001C to U+0020, U+0085 and U+00A0.
\<close>

definition isspace :: "char \<Rightarrow> bool" where
  "isspace c = (let n = (of_char c :: nat)
                in (9 \<le> n \<and> n \<le> 13) \<or> (28 \<le> n \<and> n \<le> 32) \<or> n = 133 \<or> n = 160)"

definition lstrip :: "string \<Rightarrow> string" where
  "lstrip s = dropWhile isspace s"

definition rstrip :: "string \<Rightarrow> string" where
  "rstrip s = rev (dropWhile isspace (rev s))"

definition strip :: "string \<Rightarrow> string" where
  "strip s = lstrip (rstrip s)"

text \<open>\<^verbatim>\<open>str.lower\<close>: A to Z, and the upper-case letters of Latin-1 (U+00C0 to U+00DE, not U+00D7).\<close>

definition lower_char :: "char \<Rightarrow> char" where
  "lower_char c = (let n = (of_char c :: nat)
                   in if (65 \<le> n \<and> n \<le> 90) \<or> (192 \<le> n \<and> n \<le> 222 \<and> n \<noteq> 215)
                      then char_of (n + 32) else c)"

definition lower :: "string \<Rightarrow> string" where
  "lower s = map lower_char s"

text \<open>\<^verbatim>\<open>x.split("\n")\<close>: the pieces between line feeds; the empty string gives one empty piece.\<close>

fun split_nl :: "string \<Rightarrow> string list" where
  "split_nl [] = [[]]"
| "split_nl (c # cs) =
     (if c = CHR 0x0A then [] # split_nl cs
      else (case split_nl cs of [] \<Rightarrow> [[c]] | l # ls \<Rightarrow> (c # l) # ls))"

text \<open>\<^verbatim>\<open>"\n".join(xs)\<close>.\<close>

fun join_nl :: "string list \<Rightarrow> string" where
  "join_nl [] = []"
| "join_nl [x] = x"
| "join_nl (x # y # ys) = x @ CHR 0x0A # join_nl (y # ys)"

text \<open>\<^verbatim>\<open>str(i)\<close> for a non-negative integer: its decimal digits.\<close>

fun str_nat :: "nat \<Rightarrow> string" where
  "str_nat n = (if n < 10 then [''0123456789'' ! n]
                else str_nat (n div 10) @ [''0123456789'' ! (n mod 10)])"

declare str_nat.simps [simp del]

section \<open>The world outside: console, language model, retriever, prompt templates\<close>

text \<open>
  The state the code acts on: the lines waiting on standard input, the chunks written
  to standard output, and the prompts sent to the language model so far.
\<close>

record world =
  stdin :: "string list"
  stdout :: "string list"
  llm_log :: "string list"

text \<open>
  \<^verbatim>\<open>input(prompt)\<close> writes the prompt and reads one line (\<^verbatim>\<open>EOFError\<close> when
  there is none); \<^verbatim>\<open>print(x)\<close> writes the text and a line feed.
\<close>

definition py_input :: "string \<Rightarrow> world \<Rightarrow> (exn + string) \<times> world" where
  "py_input prompt w =
     (case stdin w of
        [] \<Rightarrow> (Inl (EOFError ''EOF when reading a line''), w\<lparr>stdout := stdout w @ [prompt]\<rparr>)
      | line # rest \<Rightarrow> (Inr line, w\<lparr>stdin := rest, stdout := stdout w @ [prompt]\<rparr>))"

definition py_print :: "string \<Rightarrow> world \<Rightarrow> world" where
  "py_print s w = w\<lparr>stdout := stdout w @ [s @ [CHR 0x0A]]\<rparr>"

text \<open>
  The values a prompt template is filled with, and the collaborators of the langchain
  library, which are parameters of the model: the language model answers a prompt,
  possibly depending on the prompts it has seen (or fails); the prompt template
  fills a template text with named values (or fails); a document has a text body and
  a serialisation.
\<close>

datatype 'd pval = PStr string | PDocs "'d list"

type_synonym 'd retriever = "string \<Rightarrow> exn + 'd list"

record 'd caps =
  llm :: "string list \<Rightarrow> string \<Rightarrow> exn + string"
  format_prompt :: "string \<Rightarrow> (string \<times> 'd pval) list \<Rightarrow> exn + string"
  doc_dumps :: "'d \<Rightarrow> string"
  doc_loads :: "string \<Rightarrow> 'd"
  page_content :: "'d \<Rightarrow> string"

definition invoke_llm :: "'d caps \<Rightarrow> string \<Rightarrow> world \<Rightarrow> (exn + string) \<times> world" where
  "invoke_llm c prompt w = (llm c (llm_log w) prompt, w\<lparr>llm_log := llm_log w @ [prompt]\<rparr>)"

text \<open>
  The chain \<^verbatim>\<open>prompt | llm | StrOutputParser()\<close>: fill the template, send the
  prompt to the language model, take the text of the answer.
\<close>

definition prompt_llm_chain ::
  "'d caps \<Rightarrow> string \<Rightarrow> (string \<times> 'd pval) list \<Rightarrow> world \<Rightarrow> (exn + string) \<times> world" where
  "prompt_llm_chain c template vars w =
     (case format_prompt c template vars of
        Inl e \<Rightarrow> (Inl e, w)
      | Inr prompt \<Rightarrow> invoke_llm c prompt w)"

text \<open>The chain \<^verbatim>\<open>prompt | llm | StrOutputParser() | (lambda x: x.split("\n"))\<close>.\<close>

definition generate_queries ::
  "'d caps \<Rightarrow> string \<Rightarrow> string \<Rightarrow> world \<Rightarrow> (exn + string list) \<times> world" where
  "generate_queries c template question w =
     (case prompt_llm_chain c template [(''question'', PStr question)] w of
        (Inl e, w') \<Rightarrow> (Inl e, w')
      | (Inr x, w') \<Rightarrow> (Inr (split_nl x), w'))"

text \<open>\<^verbatim>\<open>retriever.map()\<close>: one retrieval for each query; a failure ends the chain.\<close>

fun retriever_map :: "'d retriever \<Rightarrow> string list \<Rightarrow> exn + 'd list list" where
  "retriever_map retriever [] = Inr []"
| "retriever_map retriever (q # qs) =
     (case retriever q of
        Inl e \<Rightarrow> Inl e
      | Inr docs \<Rightarrow> (case retriever_map retriever qs of
                      Inl e \<Rightarrow> Inl e
                    | Inr rest \<Rightarrow> Inr (docs # rest)))"

text \<open>
  \<^verbatim>\<open>try: ... except ValueError as e: print(prefix + str(e))\<close>: a
  \<^verbatim>\<open>ValueError\<close> is printed and the call returns; any other exception goes on.
\<close>

definition except_ValueError :: "string \<Rightarrow> (exn + unit) \<times> world \<Rightarrow> (exn + unit) \<times> world" where
  "except_ValueError prefix r =
     (case r of
        (Inl e, w) \<Rightarrow> if is_ValueError e then (Inr (), py_print (prefix @ str_exn e) w) else (Inl e, w)
      | (Inr u, w) \<Rightarrow> (Inr u, w))"

text \<open>\<^verbatim>\<open>if not retriever: raise ValueError("Retriever cannot be None")\<close>, in every constructor.\<close>

definition check_retriever :: "'r option \<Rightarrow> exn + 'r" where
  "check_retriever retriever =
     (case retriever of None \<Rightarrow> Inl (ValueError ''Retriever cannot be None'') | Some r \<Rightarrow> Inr r)"

section \<open>The fusion pipeline (models/fusion\_rrf.py)\<close>

definition prompt_rag_fusion :: string where
  "prompt_rag_fusion =
     ''You are a helpful assistant that generates multiple search queries based on a single input query. \<newline>\<newline>''
     @ ''Generate multiple search queries related to: {question} \<newline>\<newline>''
     @ ''Output (4 queries):''"

definition rag_template :: string where
  "rag_template =
     ''Answer the following question based on this context:\<newline>\<newline>''
     @ ''{context}\<newline>\<newline>''
     @ ''Question: {question}\<newline>''
     @ ''            ''"

text \<open>
  \<^verbatim>\<open>retrieve_documents\<close>: the chain generates the queries, retrieves a ranked list for
  each and fuses the lists; an empty fused list raises inside the \<^verbatim>\<open>try\<close>, so the
  handler wraps that error like any other.
\<close>

definition retrieval_chain ::
  "'d caps \<Rightarrow> 'd retriever \<Rightarrow> int \<Rightarrow> string \<Rightarrow> world \<Rightarrow> (exn + ('d \<times> real) list) \<times> world" where
  "retrieval_chain c retriever k question w =
     (case generate_queries c prompt_rag_fusion question w of
        (Inl e, w') \<Rightarrow> (Inl e, w')
      | (Inr queries, w') \<Rightarrow>
          (case retriever_map retriever queries of
             Inl e \<Rightarrow> (Inl e, w')
           | Inr results \<Rightarrow> (reciprocal_rank_fusion (doc_dumps c) (doc_loads c) results k, w')))"

definition retrieve_documents ::
  "'d caps \<Rightarrow> 'd retriever \<Rightarrow> int \<Rightarrow> string \<Rightarrow> world \<Rightarrow> (exn + ('d \<times> real) list) \<times> world" where
  "retrieve_documents c retriever k question w =
     (if question = [] then (Inl (ValueError ''Question cannot be empty''), w)
      else (case retrieval_chain c retriever k question w of
              (Inl e, w') \<Rightarrow> (Inl (ValueError (''Failed to retrieve documents: '' @ str_exn e)), w')
            | (Inr docs, w') \<Rightarrow>
                if docs = []
                then (Inl (ValueError (''Failed to retrieve documents: ''
                        @ str_exn (ValueError ''No documents retrieved for the given question.''))), w')
                else (Inr docs, w')))"

text \<open>
  \<^verbatim>\<open>answer_question\<close>: the context is the bodies of the fused documents, joined by
  line feeds; the final chain fills the template with the context and the question
  and asks the language model.
\<close>

definition answer_question ::
  "'d caps \<Rightarrow> string \<Rightarrow> ('d \<times> real) list \<Rightarrow> world \<Rightarrow> (exn + string) \<times> world" where
  "answer_question c question docs w =
     (if docs = [] then (Inl (ValueError ''No documents retrieved to generate an answer''), w)
      else (let context = join_nl (map (\<lambda>(doc, score). page_content c doc) docs)
            in case prompt_llm_chain c rag_template
                      [(''context'', PStr context), (''question'', PStr question)] w of
                 (Inl e, w') \<Rightarrow> (Inl (ValueError (''Failed to generate answer: '' @ str_exn e)), w')
               | (Inr answer, w') \<Rightarrow> (Inr answer, w')))"

text \<open>\<^verbatim>\<open>FusionRetrieval.run(self)\<close>: no parameter; the question is read from the console.\<close>

definition FusionRetrieval_run :: "'d caps \<Rightarrow> 'd retriever \<Rightarrow> int \<Rightarrow> world \<Rightarrow> (exn + unit) \<times> world" where
  "FusionRetrieval_run c retriever k w =
     (case py_input ''Please enter your question: '' w of
        (Inl e, w1) \<Rightarrow> (Inl e, w1)
      | (Inr question, w1) \<Rightarrow>
          except_ValueError ''Error: ''
            (case retrieve_documents c retriever k question w1 of
               (Inl e, w2) \<Rightarrow> (Inl e, w2)
             | (Inr docs, w2) \<Rightarrow>
                 (case answer_question c question docs w2 of
                    (Inl e, w3) \<Rightarrow> (Inl e, w3)
                  | (Inr answer, w3) \<Rightarrow> (Inr (), py_print (''Answer: '' @ answer) w3))))"

section \<open>The decomposition pipeline (models/decomposition\_ltm.py)\<close>

definition prompt_decomposition :: string where
  "prompt_decomposition =
     ''You are a helpful assistant that generates multiple sub-questions related to an input question. \<newline>\<newline>''
     @ ''The goal is to break down the input into a set of sub-problems / sub-questions that can be answers in isolation. \<newline>\<newline>''
     @ ''Generate multiple search queries related to: {question} \<newline>\<newline>''
     @ ''Output (3 queries):''"

definition decomposition_prompt :: string where
  "decomposition_prompt =
     ''Here is the question you need to answer:\<newline>\<newline>''
     @ ''\<newline> --- \<newline> {question} \<newline> --- \<newline>\<newline>\<newline>''
     @ ''Here is any available background question + answer pairs:\<newline>\<newline>''
     @ ''\<newline> --- \<newline> {q_a_pairs} \<newline> --- \<newline>\<newline>\<newline>''
     @ ''Here is additional context relevant to the question: \<newline>\<newline>''
     @ ''\<newline> --- \<newline> {context} \<newline> --- \<newline>\<newline>\<newline>''
     @ ''Use the above context and any background question + answer pairs to answer the question: \<newline> {question}\<newline>''
     @ ''            ''"

definition final_prompt :: string where
  "final_prompt =
     ''Here is a set of Q+A pairs:\<newline>\<newline>''
     @ ''{context}\<newline>\<newline>''
     @ ''Use these to synthesize an answer to the question: {question}\<newline>''
     @ ''                ''"

definition format_qa_pair :: "string \<Rightarrow> string \<Rightarrow> string" where
  "format_qa_pair question answer =
     strip (''Question: '' @ question @ ''\<newline>Answer: '' @ answer @ ''\<newline>\<newline>'')"

text \<open>
  The loop of \<^verbatim>\<open>retrieve_and_rag\<close>: for each sub-question, retrieve its documents,
  fill the template with \<^verbatim>\<open>context\<close> and \<^verbatim>\<open>question\<close> only, ask the language model
  and append the answer.
\<close>

fun rag_loop ::
  "'d caps \<Rightarrow> 'd retriever \<Rightarrow> string list \<Rightarrow> string list \<Rightarrow> world \<Rightarrow> (exn + string list) \<times> world" where
  "rag_loop c retriever [] rag_results w = (Inr rag_results, w)"
| "rag_loop c retriever (sub_question # sub_questions) rag_results w =
     (case retriever sub_question of
        Inl e \<Rightarrow> (Inl e, w)
      | Inr retrieved_docs \<Rightarrow>
          (case prompt_llm_chain c decomposition_prompt
                  [(''context'', PDocs retrieved_docs), (''question'', PStr sub_question)] w of
             (Inl e, w') \<Rightarrow> (Inl e, w')
           | (Inr answer, w') \<Rightarrow> rag_loop c retriever sub_questions (rag_results @ [answer]) w'))"

definition retrieve_and_rag ::
  "'d caps \<Rightarrow> 'd retriever \<Rightarrow> string
     \<Rightarrow> (string \<Rightarrow> world \<Rightarrow> (exn + string list) \<times> world)
     \<Rightarrow> world \<Rightarrow> (exn + string list \<times> string list) \<times> world" where
  "retrieve_and_rag c retriever question sub_question_generator_chain w =
     (if question = [] then (Inl (ValueError ''Question cannot be empty''), w)
      else (case sub_question_generator_chain question w of
              (Inl e, w1) \<Rightarrow>
                (Inl (ValueError (''Failed to retrieve and RAG sub-questions: '' @ str_exn e)), w1)
            | (Inr sub_questions, w1) \<Rightarrow>
                (case rag_loop c retriever sub_questions [] w1 of
                   (Inl e, w2) \<Rightarrow>
                     (Inl (ValueError (''Failed to retrieve and RAG sub-questions: '' @ str_exn e)), w2)
                 | (Inr rag_results, w2) \<Rightarrow> (Inr (rag_results, sub_questions), w2))))"

text \<open>
  \<^verbatim>\<open>format_qa_pairs\<close>: \<^verbatim>\<open>enumerate(zip(questions, answers), start=1)\<close>, one block
  appended for each pair, the whole stripped at the end.
\<close>

fun format_loop :: "nat \<Rightarrow> (string \<times> string) list \<Rightarrow> string \<Rightarrow> string" where
  "format_loop i [] formatted_string = formatted_string"
| "format_loop i ((question, answer) # pairs) formatted_string =
     format_loop (Suc i) pairs
       (formatted_string
          @ ''Question '' @ str_nat i @ '': '' @ question
          @ ''\<newline>Answer '' @ str_nat i @ '': '' @ answer @ ''\<newline>\<newline>'')"

definition format_qa_pairs :: "string list \<Rightarrow> string list \<Rightarrow> exn + string" where
  "format_qa_pairs questions answers = Inr (strip (format_loop 1 (zip questions answers) []))"

text \<open>\<^verbatim>\<open>DecompositionRetrieval.run(self)\<close>: no parameter; the question is read from the console.\<close>

definition DecompositionRetrieval_run :: "'d caps \<Rightarrow> 'd retriever \<Rightarrow> world \<Rightarrow> (exn + unit) \<times> world" where
  "DecompositionRetrieval_run c retriever w =
     (case py_input ''Please enter your question: '' w of
        (Inl e, w1) \<Rightarrow> (Inl e, w1)
      | (Inr question, w1) \<Rightarrow>
          except_ValueError ''Error: ''
            (case retrieve_and_rag c retriever question (generate_queries c prompt_decomposition) w1 of
               (Inl e, w2) \<Rightarrow> (Inl e, w2)
             | (Inr (answers, sub_questions), w2) \<Rightarrow>
                 (case format_qa_pairs sub_questions answers of
                    Inl e \<Rightarrow> (Inl e, w2)
                  | Inr context \<Rightarrow>
                      (case prompt_llm_chain c final_prompt
                              [(''context'', PStr context), (''question'', PStr question)] w2 of
                         (Inl e, w3) \<Rightarrow> (Inl e, w3)
                       | (Inr final_answer, w3) \<Rightarrow>
                           (Inr (), py_print (''Final Answer: '' @ final_answer) w3)))))"

section \<open>The dispatcher (call\_methods.py) and the entry point (main.py)\<close>

text \<open>
  models/multi\_query.py is not among the sources: constructing a
  \<^verbatim>\<open>MultiQueryRetrieval\<close> and calling its \<^verbatim>\<open>run\<close> is the parameter \<open>multi_query\<close>.
  The other two constructors check the retriever and take the defaults (\<open>k = 60\<close>).
\<close>

definition invalid_method_message :: string where
  "invalid_method_message =
     ''Invalid method name provided. Please choose from '' @ [CHR 0x27] @ ''multi_query'' @ [CHR 0x27]
     @ '', '' @ [CHR 0x27] @ ''fusion'' @ [CHR 0x27] @ '', or '' @ [CHR 0x27] @ ''decomposition'' @ [CHR 0x27] @ ''.''"

definition call_method ::
  "'d caps \<Rightarrow> ('d retriever option \<Rightarrow> world \<Rightarrow> (exn + unit) \<times> world)
     \<Rightarrow> 'd retriever option \<Rightarrow> string \<Rightarrow> world \<Rightarrow> (exn + unit) \<times> world" where
  "call_method c multi_query self_retriever method_name w =
     (if lower method_name = ''multi_query'' then
        except_ValueError ''Error in MultiQueryRetrieval: '' (multi_query self_retriever w)
      else if lower method_name = ''fusion'' then
        except_ValueError ''Error in FusionRetrieval: ''
          (case check_retriever self_retriever of
             Inl e \<Rightarrow> (Inl e, w)
           | Inr retriever \<Rightarrow> FusionRetrieval_run c retriever 60 w)
      else if lower method_name = ''decomposition'' then
        except_ValueError ''Error in DecompositionRetrieval: ''
          (case check_retriever self_retriever of
             Inl e \<Rightarrow> (Inl e, w)
           | Inr retriever \<Rightarrow> DecompositionRetrieval_run c retriever w)
      else (Inr (), py_print invalid_method_message w))"

text \<open>
  Calling the bound method with a list of positional arguments: \<^verbatim>\<open>call_method(self,
  method_name)\<close> takes exactly one, and any other number raises \<^verbatim>\<open>TypeError\<close>
  before the body runs.
\<close>

definition call_method_args ::
  "'d caps \<Rightarrow> ('d retriever option \<Rightarrow> world \<Rightarrow> (exn + unit) \<times> world)
     \<Rightarrow> 'd retriever option \<Rightarrow> string list \<Rightarrow> world \<Rightarrow> (exn + unit) \<times> world" where
  "call_method_args c multi_query self_retriever args w =
     (case args of
        [method_name] \<Rightarrow> call_method c multi_query self_retriever method_name w
      | [] \<Rightarrow> (Inl (TypeError (''RAGMethodCaller.call_method() missing 1 required positional argument: ''
                       @ [CHR 0x27] @ ''method_name'' @ [CHR 0x27])), w)
      | _ \<Rightarrow> (Inl (TypeError (''RAGMethodCaller.call_method() takes 2 positional arguments but ''
                       @ str_nat (Suc (length args)) @ '' were given'')), w))"

text \<open>
  \<^verbatim>\<open>main\<close>, from the construction of the dispatcher on (the retriever comes from the
  document processor, which is outside the model): the method name is fixed, the query
  is read from the console, and both are passed to \<^verbatim>\<open>call_method\<close>.
\<close>

definition main :: "'d caps \<Rightarrow> ('d retriever option \<Rightarrow> world \<Rightarrow> (exn + unit) \<times> world)
     \<Rightarrow> 'd retriever option \<Rightarrow> world \<Rightarrow> (exn + unit) \<times> world" where
  "main c multi_query retriever w =
     (case check_retriever retriever of
        Inl e \<Rightarrow> (Inl e, w)
      | Inr r \<Rightarrow>
          (let method_name = ''multi_query'' in
           case py_input ''Please enter your query: '' w of
             (Inl e, w1) \<Rightarrow> (Inl e, w1)
           | (Inr query, w1) \<Rightarrow> call_method_args c multi_query (Some r) [method_name, query] w1))"



text \<open>
  The block of the specification for the \<open>i\<close>-th pair:
  \<^verbatim>\<open>"Question i: q\nAnswer i: a\n\n"\<close>.
\<close>

definition qa_block :: "nat \<Rightarrow> string \<Rightarrow> string \<Rightarrow> string" where
  "qa_block i q a =
     ''Question '' @ str_nat i @ '': '' @ q @ ''\<newline>Answer '' @ str_nat i @ '': '' @ a @ ''\<newline>\<newline>''"




section \<open>Properties of reciprocal rank fusion\<close>

subsection \<open>The dictionary and the order of first encounter\<close>






subsection \<open>What the loops compute\<close>









subsection \<open>The descending stable sort\<close>






subsection \<open>The fused scores\<close>





lemma rrf_example_reordered:
  "reciprocal_rank_fusion (\<lambda>d. d) (\<lambda>s. s) [[''A'', ''B'', ''C''], [''C'']] 1
     = Inr [(''C'', 4 / 3), (''A'', 1), (''B'', 1 / 2)]"
  by (simp add: reciprocal_rank_fusion_def dict_contains_def dict_get_def sorted_reverse_def)

text \<open>
  Claim C3.  On the empty collection the function raises the \<^verbatim>\<open>ValueError\<close> for
  invalid input; on \<open>[[], []]\<close>, and on any non-empty collection of empty lists, it
  returns the empty result.
\<close>

theorem rrf_empty_input:
  "reciprocal_rank_fusion dumps loads [] k = Inl (ValueError ''Results list cannot be empty'')
   \<and> reciprocal_rank_fusion dumps loads [[], []] k = Inr []
   \<and> reciprocal_rank_fusion dumps loads (replicate (Suc n) []) k = Inr []"
proof -
  have "rrf_results dumps k (replicate m []) fs = Inr fs" for m fs
    by (induction m) simp_all
  from this[of "Suc n" "[]"] show ?thesis
    by (simp add: reciprocal_rank_fusion_def sorted_reverse_def)
qed

subsection \<open>Monotonicity\<close>








section \<open>Properties of the decomposition pipeline\<close>

subsection \<open>Stripping\<close>

lemma isspace_simps:
  "isspace CHR 0x0A" "isspace CHR '' ''" "\<not> isspace CHR ''Q''" "\<not> isspace CHR '':''"
  by (simp_all add: isspace_def)

lemma rstrip_keeps_prefix:
  assumes "\<not> isspace c"
  shows "rstrip (xs @ c # ys) = xs @ c # rstrip ys"
proof -
  have "dropWhile isspace (rev ys @ c # rev xs) = dropWhile isspace (rev ys) @ c # rev xs"
    using assms by (simp add: dropWhile_append)
  then show ?thesis
    by (simp add: rstrip_def)
qed

lemma rstrip_Cons: "\<not> isspace c \<Longrightarrow> rstrip (c # ys) = c # rstrip ys"
  using rstrip_keeps_prefix[of c "[]" ys] by simp

lemma rstrip_drops_suffix:
  assumes "\<forall>c\<in>set ws. isspace c"
  shows "rstrip (xs @ ws) = rstrip xs"
proof -
  have "dropWhile isspace (rev ws @ rev xs) = dropWhile isspace (rev xs)"
    using assms by (simp add: dropWhile_append)
  then show ?thesis
    by (simp add: rstrip_def)
qed

lemma strip_not_space: "\<not> isspace c \<Longrightarrow> strip (c # ys) = rstrip (c # ys)"
  by (simp add: strip_def lstrip_def rstrip_Cons)

lemma strip_Nil: "strip [] = []" "rstrip [] = []"
  by (simp_all add: strip_def lstrip_def rstrip_def)

subsection \<open>The formatted context\<close>

lemma format_loop_blocks:
  "format_loop i (zip questions answers) formatted
     = formatted @ concat (map (\<lambda>j. qa_block (i + j) (questions ! j) (answers ! j))
                            [0..<min (length questions) (length answers)])"
proof (induction questions arbitrary: answers i formatted)
  case Nil
  then show ?case by simp
next
  case (Cons q qs)
  show ?case
  proof (cases answers)
    case Nil
    then show ?thesis by simp
  next
    case (Cons a as)
    have u: "[0..<min (length (q # qs)) (length (a # as))] = 0 # map Suc [0..<min (length qs) (length as)]"
      by (simp add: upt_conv_Cons map_Suc_upt del: upt_Suc)
    show ?thesis
      unfolding Cons u
      by (simp add: Cons.IH[of "Suc i" as] comp_def qa_block_def del: upt_Suc)
  qed
qed

lemma concat_blocks_cases:
  "concat (map (\<lambda>j. qa_block (i + j) (questions ! j) (answers ! j)) [0..<n]) = []
   \<or> (\<exists>rest. concat (map (\<lambda>j. qa_block (i + j) (questions ! j) (answers ! j)) [0..<n])
               = CHR ''Q'' # rest)"
proof (cases n)
  case 0
  then show ?thesis by simp
next
  case (Suc m)
  have "[0..<Suc m] = 0 # [Suc 0..<Suc m]"
    by (simp add: upt_conv_Cons del: upt_Suc)
  then show ?thesis
    unfolding Suc by (simp add: qa_block_def del: upt_Suc)
qed

lemma format_qa_pairs_min:
  "format_qa_pairs questions answers
     = Inr (rstrip (concat (map (\<lambda>i. qa_block (Suc i) (questions ! i) (answers ! i))
                              [0..<min (length questions) (length answers)])))"
proof -
  let ?s = "concat (map (\<lambda>j. qa_block (1 + j) (questions ! j) (answers ! j))
                      [0..<min (length questions) (length answers)])"
  have "strip ?s = rstrip ?s"
  proof -
    from concat_blocks_cases[of 1 questions answers "min (length questions) (length answers)"]
    consider "?s = []" | rest where "?s = CHR ''Q'' # rest"
      by blast
    then show ?thesis
    proof cases
      case 1
      then show ?thesis by (simp only: strip_Nil)
    next
      case 2
      then show ?thesis by (simp only: strip_not_space[OF isspace_simps(3)])
    qed
  qed
  then show ?thesis
    by (simp add: format_qa_pairs_def format_loop_blocks)
qed

lemma str_nat_digits:
  "str_nat (Suc 0) = ''1''" "str_nat (Suc (Suc 0)) = ''2''" "str_nat (Suc (Suc (Suc 0))) = ''3''"
  by (simp_all add: str_nat.simps)

lemma format_three:
  "format_qa_pairs [q1, q2, q3] [a1, a2, a3]
     = Inr (''Question 1: '' @ q1 @ ''\<newline>Answer 1: '' @ a1 @ ''\<newline>\<newline>''
            @ ''Question 2: '' @ q2 @ ''\<newline>Answer 2: '' @ a2 @ ''\<newline>\<newline>''
            @ ''Question 3: '' @ q3 @ ''\<newline>Answer 3:'' @ rstrip ('' '' @ a3))"
proof -
  let ?pre = "''Question 1: '' @ q1 @ ''\<newline>Answer 1: '' @ a1 @ ''\<newline>\<newline>''
            @ ''Question 2: '' @ q2 @ ''\<newline>Answer 2: '' @ a2 @ ''\<newline>\<newline>''
            @ ''Question 3: '' @ q3 @ ''\<newline>Answer 3''"
  have s: "format_loop 1 (zip [q1, q2, q3] [a1, a2, a3]) []
             = ?pre @ CHR '':'' # (('' '' @ a3) @ ''\<newline>\<newline>'')"
    by (simp add: str_nat_digits)
  have "strip (?pre @ CHR '':'' # (('' '' @ a3) @ ''\<newline>\<newline>''))
          = rstrip (?pre @ CHR '':'' # (('' '' @ a3) @ ''\<newline>\<newline>''))"
    using strip_not_space[of "CHR ''Q''"] by (simp add: isspace_simps)
  also have "\<dots> = ?pre @ CHR '':'' # rstrip (('' '' @ a3) @ ''\<newline>\<newline>'')"
    by (rule rstrip_keeps_prefix) (simp add: isspace_simps)
  also have "rstrip (('' '' @ a3) @ ''\<newline>\<newline>'') = rstrip ('' '' @ a3)"
    by (rule rstrip_drops_suffix) (simp add: isspace_simps)
  finally show ?thesis
    unfolding format_qa_pairs_def s by simp
qed

text \<open>
  Claim C6.  For question and answer lists of equal length the formatted context is the
  concatenation, in order, of the blocks \<^verbatim>\<open>"Question i: qi\nAnswer i: ai\n\n"\<close>
  numbered from 1, with the trailing whitespace removed.  For three pairs this is the
  text written out below: each question is followed at once by its answer, the pairs
  stand in their order, and only the end of the last answer is trimmed.
\<close>

theorem format_qa_pairs_blocks:
  "(length questions = length answers \<longrightarrow>
      format_qa_pairs questions answers
        = Inr (rstrip (concat (map (\<lambda>i. qa_block (Suc i) (questions ! i) (answers ! i))
                                 [0..<length questions]))))
   \<and> format_qa_pairs [q1, q2, q3] [a1, a2, a3]
       = Inr (''Question 1: '' @ q1 @ ''\<newline>Answer 1: '' @ a1 @ ''\<newline>\<newline>''
              @ ''Question 2: '' @ q2 @ ''\<newline>Answer 2: '' @ a2 @ ''\<newline>\<newline>''
              @ ''Question 3: '' @ q3 @ ''\<newline>Answer 3:'' @ rstrip ('' '' @ a3))"
  using format_qa_pairs_min[of questions answers] format_three[of q1 q2 q3 a1 a2 a3]
  by simp

theorem format_qa_pairs_blocks_witness:
  "length [''q1'', ''q2'', ''q3''] = length [''a1'', ''a2'', ''a3'']
   \<and> format_qa_pairs [''q1'', ''q2'', ''q3''] [''a1'', ''a2'', ''a3'']
       = Inr (rstrip (concat (map (\<lambda>i. qa_block (Suc i) ([''q1'', ''q2'', ''q3''] ! i) ([''a1'', ''a2'', ''a3''] ! i))
                                [0..<length [''q1'', ''q2'', ''q3'']])))
   \<and> format_qa_pairs [''q1'', ''q2'', ''q3''] [''a1'', ''a2'', ''a3'']
       = Inr ''Question 1: q1\<newline>Answer 1: a1\<newline>\<newline>Question 2: q2\<newline>Answer 2: a2\<newline>\<newline>Question 3: q3\<newline>Answer 3: a3''"
proof -
  note t = format_qa_pairs_blocks[of "[''q1'', ''q2'', ''q3'']" "[''a1'', ''a2'', ''a3'']"
            "''q1''" "''q2''" "''q3''" "''a1''" "''a2''" "''a3''"]
  have l: "length [''q1'', ''q2'', ''q3''] = length [''a1'', ''a2'', ''a3'']"
    by simp
  have r: "rstrip '' a3'' = '' a3''"
    by (simp add: rstrip_def isspace_def)
  have c2: "format_qa_pairs [''q1'', ''q2'', ''q3''] [''a1'', ''a2'', ''a3'']
       = Inr ''Question 1: q1\<newline>Answer 1: a1\<newline>\<newline>Question 2: q2\<newline>Answer 2: a2\<newline>\<newline>Question 3: q3\<newline>Answer 3: a3''"
    using t[THEN conjunct2] r by simp
  show ?thesis
    by (intro conjI l t[THEN conjunct1, THEN mp, OF l] c2)
qed

text \<open>
  Claim C10.  For lists of any lengths \<open>format_qa_pairs\<close> returns normally, and its
  result is the one for both lists cut to the length of the shorter: the surplus
  questions or answers do not appear in the formatted context.
\<close>

theorem format_qa_pairs_unequal:
  "(\<exists>s. format_qa_pairs questions answers = Inr s)
   \<and> format_qa_pairs questions answers
       = format_qa_pairs (take (min (length questions) (length answers)) questions)
                         (take (min (length questions) (length answers)) answers)
   \<and> format_qa_pairs questions answers
       = Inr (rstrip (concat (map (\<lambda>i. qa_block (Suc i) (questions ! i) (answers ! i))
                                [0..<min (length questions) (length answers)])))"
proof -
  let ?n = "min (length questions) (length answers)"
  have "zip (take ?n questions) (take ?n answers) = zip questions answers"
    by (simp add: take_zip[symmetric])
  then have t: "format_qa_pairs questions answers = format_qa_pairs (take ?n questions) (take ?n answers)"
    by (simp add: format_qa_pairs_def)
  have ex: "\<exists>s. format_qa_pairs questions answers = Inr s"
    by (simp add: format_qa_pairs_def)
  show ?thesis
    by (intro conjI ex t format_qa_pairs_min)
qed

lemma format_qa_pairs_surplus_example:
  "format_qa_pairs [''q1'', ''q2''] [''a1''] = Inr ''Question 1: q1\<newline>Answer 1: a1''"
  "format_qa_pairs [''q1''] [''a1'', ''a2''] = Inr ''Question 1: q1\<newline>Answer 1: a1''"
  by (simp_all add: format_qa_pairs_def str_nat_digits strip_def lstrip_def rstrip_def isspace_def)

subsection \<open>The prompts of the sub-questions\<close>





section \<open>Properties of the fusion pipeline\<close>

lemma split_nl_not_Nil: "split_nl s \<noteq> []"
  by (induction s) (auto split: list.splits)

lemma retriever_map_empty:
  "\<forall>q\<in>set qs. retriever q = Inr [] \<Longrightarrow> retriever_map retriever qs = Inr (replicate (length qs) [])"
  by (induction qs) simp_all

lemma rrf_results_replicate_empty: "rrf_results dumps k (replicate m []) fs = Inr fs"
  by (induction m) simp_all

lemma rrf_replicate_empty: "reciprocal_rank_fusion dumps loads (replicate (Suc n) []) k = Inr []"
  using rrf_results_replicate_empty[of dumps k "Suc n" "[]"]
  by (simp add: reciprocal_rank_fusion_def sorted_reverse_def)

lemma retrieval_chain_empty:
  assumes p: "format_prompt c prompt_rag_fusion [(''question'', PStr question)] = Inr prompt"
    and l: "llm c (llm_log w) prompt = Inr response"
    and e: "\<forall>query\<in>set (split_nl response). retriever query = Inr []"
  shows "retrieval_chain c retriever k question w = (Inr [], w\<lparr>llm_log := llm_log w @ [prompt]\<rparr>)"
proof -
  obtain n where n: "length (split_nl response) = Suc n"
    using split_nl_not_Nil[of response] by (cases "split_nl response") auto
  have g: "generate_queries c prompt_rag_fusion question w
             = (Inr (split_nl response), w\<lparr>llm_log := llm_log w @ [prompt]\<rparr>)"
    using p l by (simp add: generate_queries_def prompt_llm_chain_def invoke_llm_def)
  have m: "retriever_map retriever (split_nl response) = Inr (replicate (Suc n) [])"
    using retriever_map_empty[OF e] n by simp
  show ?thesis
    unfolding retrieval_chain_def g by (simp add: m rrf_replicate_empty del: replicate_Suc)
qed

text \<open>
  Claim C5.  Let the question be non-empty, let the query generation succeed, and let
  the retriever return the empty list for every generated query.  Then
  \<open>retrieve_documents\<close> raises the \<^verbatim>\<open>ValueError\<close> for an empty retrieval, and \<open>run\<close>
  prints it and returns; the only prompt the language model has received is the one
  that generates the queries, so it is not asked for the final answer.
\<close>

theorem fusion_empty_retrieval:
  assumes "question \<noteq> []"
    and "format_prompt c prompt_rag_fusion [(''question'', PStr question)] = Inr prompt"
    and "llm c (llm_log w) prompt = Inr response"
    and "\<forall>query\<in>set (split_nl response). retriever query = Inr []"
  shows "retrieve_documents c retriever k question w
           = (Inl (ValueError ''Failed to retrieve documents: No documents retrieved for the given question.''),
              w\<lparr>llm_log := llm_log w @ [prompt]\<rparr>)
       \<and> FusionRetrieval_run c retriever k (w\<lparr>stdin := question # rest\<rparr>)
           = (Inr (),
              w\<lparr>stdin := rest,
                stdout := stdout w @ [''Please enter your question: '',
                  ''Error: Failed to retrieve documents: No documents retrieved for the given question.\<newline>''],
                llm_log := llm_log w @ [prompt]\<rparr>)"
proof -
  have a: "retrieve_documents c retriever k question w'
           = (Inl (ValueError ''Failed to retrieve documents: No documents retrieved for the given question.''),
              w'\<lparr>llm_log := llm_log w' @ [prompt]\<rparr>)" if "llm_log w' = llm_log w" for w'
    using assms(1) retrieval_chain_empty[of c question prompt w' response retriever k] assms(2-4) that
    by (simp add: retrieve_documents_def)
  let ?w1 = "w\<lparr>stdin := rest, stdout := stdout w @ [''Please enter your question: '']\<rparr>"
  have i: "py_input ''Please enter your question: '' (w\<lparr>stdin := question # rest\<rparr>) = (Inr question, ?w1)"
    by (simp add: py_input_def)
  have b: "FusionRetrieval_run c retriever k (w\<lparr>stdin := question # rest\<rparr>)
           = (Inr (),
              w\<lparr>stdin := rest,
                stdout := stdout w @ [''Please enter your question: '',
                  ''Error: Failed to retrieve documents: No documents retrieved for the given question.\<newline>''],
                llm_log := llm_log w @ [prompt]\<rparr>)"
    unfolding FusionRetrieval_run_def i
    by (simp add: a[of ?w1] except_ValueError_def py_print_def)
  show ?thesis
    using a[of w] b by simp
qed

theorem fusion_empty_retrieval_witness:
  "''What is RAG?'' \<noteq> []
   \<and> format_prompt
        \<lparr>llm = (\<lambda>log p. Inr ''q1\<newline>q2''), format_prompt = (\<lambda>t vars. Inr ''P''),
         doc_dumps = (\<lambda>d. d), doc_loads = (\<lambda>s. s), page_content = (\<lambda>d::string. d)\<rparr>
        prompt_rag_fusion [(''question'', PStr ''What is RAG?'')] = Inr ''P''
   \<and> llm \<lparr>llm = (\<lambda>log p. Inr ''q1\<newline>q2''), format_prompt = (\<lambda>t vars. Inr ''P''),
         doc_dumps = (\<lambda>d. d), doc_loads = (\<lambda>s. s), page_content = (\<lambda>d::string. d)\<rparr>
        (llm_log \<lparr>stdin = [], stdout = [], llm_log = []\<rparr>) ''P'' = Inr ''q1\<newline>q2''
   \<and> split_nl ''q1\<newline>q2'' = [''q1'', ''q2'']
   \<and> (\<lambda>q. Inr []) ''q1'' = (Inr [] :: exn + string list)
   \<and> (\<lambda>q. Inr []) ''q2'' = (Inr [] :: exn + string list)
   \<and> FusionRetrieval_run
        \<lparr>llm = (\<lambda>log p. Inr ''q1\<newline>q2''), format_prompt = (\<lambda>t vars. Inr ''P''),
         doc_dumps = (\<lambda>d. d), doc_loads = (\<lambda>s. s), page_content = (\<lambda>d::string. d)\<rparr>
        (\<lambda>q. Inr []) 60 \<lparr>stdin = [''What is RAG?''], stdout = [], llm_log = []\<rparr>
      = (Inr (),
         \<lparr>stdin = [],
          stdout = [''Please enter your question: '',
             ''Error: Failed to retrieve documents: No documents retrieved for the given question.\<newline>''],
          llm_log = [''P'']\<rparr>)"
proof -
  let ?c = "\<lparr>llm = (\<lambda>log p. Inr ''q1\<newline>q2''), format_prompt = (\<lambda>t vars. Inr ''P''),
         doc_dumps = (\<lambda>d. d), doc_loads = (\<lambda>s. s), page_content = (\<lambda>d::string. d)\<rparr>"
  let ?w = "\<lparr>stdin = [], stdout = [], llm_log = []\<rparr>"
  have h1: "''What is RAG?'' \<noteq> []" by simp
  have h2: "format_prompt ?c prompt_rag_fusion [(''question'', PStr ''What is RAG?'')] = Inr ''P''"
    by simp
  have h3: "llm ?c (llm_log ?w) ''P'' = Inr ''q1\<newline>q2''"
    by simp
  have s: "split_nl ''q1\<newline>q2'' = [''q1'', ''q2'']"
    by simp
  have h4: "\<forall>query\<in>set (split_nl ''q1\<newline>q2''). (\<lambda>q. Inr []) query = (Inr [] :: exn + string list)"
    by simp
  have r: "FusionRetrieval_run ?c (\<lambda>q. Inr []) 60 \<lparr>stdin = [''What is RAG?''], stdout = [], llm_log = []\<rparr>
      = (Inr (),
         \<lparr>stdin = [],
          stdout = [''Please enter your question: '',
             ''Error: Failed to retrieve documents: No documents retrieved for the given question.\<newline>''],
          llm_log = [''P'']\<rparr>)"
    using fusion_empty_retrieval[OF h1 h2 h3 h4, of 60 "[]", THEN conjunct2] by simp
  have e: "(\<lambda>q. Inr []) ''q1'' = (Inr [] :: exn + string list)"
    "(\<lambda>q. Inr []) ''q2'' = (Inr [] :: exn + string list)"
    by simp_all
  show ?thesis
    by (intro conjI h1 h2 h3 s e r)
qed

section \<open>Properties of the dispatcher and the entry point\<close>




lemma char_eq_char_of:
  "(c = char_of (n::nat)) = ((of_char c :: nat) = n mod 256)"
  "(char_of (n::nat) = c) = ((of_char c :: nat) = n mod 256)"
  by (metis of_char_of char_of_char)+

lemma lower_examples:
  "lower ''FuSiOn'' = ''fusion''" "lower ''Multi_Query'' = ''multi_query''"
  "lower ''fusion '' \<noteq> ''fusion''"
  by (simp_all add: lower_def lower_char_def char_eq_char_of)



text \<open>
  Claim C9.  The entry point \<open>run\<close> of a strategy has no question parameter and always
  reads the question from the console (with nothing to read it ends in
  \<^verbatim>\<open>EOFError\<close>).  \<open>main\<close> reads the query and passes it to \<open>call_method\<close> beside the
  method name; \<open>call_method\<close> takes the method name only, so the call raises
  \<^verbatim>\<open>TypeError\<close> and no pipeline runs.
\<close>

theorem main_query_type_error:
  "main c multi_query (Some r) (w\<lparr>stdin := query # rest\<rparr>)
     = (Inl (TypeError ''RAGMethodCaller.call_method() takes 2 positional arguments but 3 were given''),
        w\<lparr>stdin := rest, stdout := stdout w @ [''Please enter your query: '']\<rparr>)
   \<and> FusionRetrieval_run c r k (w\<lparr>stdin := []\<rparr>)
     = (Inl (EOFError ''EOF when reading a line''),
        w\<lparr>stdin := [], stdout := stdout w @ [''Please enter your question: '']\<rparr>)
   \<and> DecompositionRetrieval_run c r (w\<lparr>stdin := []\<rparr>)
     = (Inl (EOFError ''EOF when reading a line''),
        w\<lparr>stdin := [], stdout := stdout w @ [''Please enter your question: '']\<rparr>)"
proof -
  have s: "str_nat (Suc (Suc (Suc 0))) = ''3''"
    by (simp add: str_nat.simps)
  show ?thesis
    by (simp add: main_def check_retriever_def py_input_def call_method_args_def s
        FusionRetrieval_run_def DecompositionRetrieval_run_def)
qed

end
